theory Spec2Isabelle
  imports Complex_Main
begin

section \<open>Temperature analysis and live monitoring: a shallow embedding\<close>

text \<open>
  The development follows \<^verbatim>\<open>analysis.py\<close> and \<^verbatim>\<open>weather_monitor.py\<close>.
  The two files are written against pandas, numpy and scipy; the operations of those
  libraries that the functions call are modelled first (section "Library operations"),
  each with the behaviour the library documents, and the functions of the repository are
  then translated line by line on top of them.

  Numbers. A float64 is modelled as a value of \<open>fl\<close>: either \<open>NaN\<close> or a real number.
  Arithmetic is exact (no rounding, no infinities); what is kept of IEEE arithmetic is the
  part the code relies on: \<open>NaN\<close> is absorbing for \<open>+\<close>, \<open>-\<close>, \<open>*\<close> and \<open>abs\<close>, and every
  ordered comparison with a \<open>NaN\<close> operand is false.
\<close>

subsection \<open>Floating-point values with NaN\<close>

datatype fl = NaN | Fin real

fun fl_add :: "fl \<Rightarrow> fl \<Rightarrow> fl" where
  "fl_add (Fin a) (Fin b) = Fin (a + b)"
| "fl_add _ _ = NaN"

fun fl_sub :: "fl \<Rightarrow> fl \<Rightarrow> fl" where
  "fl_sub (Fin a) (Fin b) = Fin (a - b)"
| "fl_sub _ _ = NaN"

fun fl_mul :: "fl \<Rightarrow> fl \<Rightarrow> fl" where
  "fl_mul (Fin a) (Fin b) = Fin (a * b)"
| "fl_mul _ _ = NaN"

fun fl_abs :: "fl \<Rightarrow> fl" where
  "fl_abs (Fin a) = Fin \<bar>a\<bar>"
| "fl_abs NaN = NaN"

fun fl_lt :: "fl \<Rightarrow> fl \<Rightarrow> bool" where
  "fl_lt (Fin a) (Fin b) = (a < b)"
| "fl_lt _ _ = False"

fun fl_le :: "fl \<Rightarrow> fl \<Rightarrow> bool" where
  "fl_le (Fin a) (Fin b) = (a \<le> b)"
| "fl_le _ _ = False"

definition fl_gt :: "fl \<Rightarrow> fl \<Rightarrow> bool" where
  "fl_gt a b = fl_lt b a"

definition fl_ge :: "fl \<Rightarrow> fl \<Rightarrow> bool" where
  "fl_ge a b = fl_le b a"

text \<open>The non-missing observations of a column, in order (pandas skips \<open>NaN\<close>).\<close>

fun observations :: "fl list \<Rightarrow> real list" where
  "observations [] = []"
| "observations (NaN # xs) = observations xs"
| "observations (Fin x # xs) = x # observations xs"

subsection \<open>Library operations: pandas Series and DataFrame\<close>

text \<open>
  \<^verbatim>\<open>Series.unique()\<close>: the distinct values in order of first appearance.
\<close>

definition unique :: "'a list \<Rightarrow> 'a list" where
  "unique xs = rev (remdups (rev xs))"

text \<open>\<^verbatim>\<open>col == v\<close>: the boolean mask of a column.\<close>

definition eq_mask :: "'a list \<Rightarrow> 'a \<Rightarrow> bool list" where
  "eq_mask col v = map (\<lambda>x. x = v) col"

text \<open>\<^verbatim>\<open>m1 & m2\<close>: elementwise conjunction of two masks.\<close>

definition and_mask :: "bool list \<Rightarrow> bool list \<Rightarrow> bool list" where
  "and_mask m1 m2 = map (\<lambda>(a, b). a \<and> b) (zip m1 m2)"

text \<open>\<^verbatim>\<open>col[msk]\<close>: the entries of a column at the rows the mask selects, in row order.\<close>

fun select :: "bool list \<Rightarrow> 'a list \<Rightarrow> 'a list" where
  "select (b # bs) (x # xs) = (if b then x # select bs xs else select bs xs)"
| "select _ _ = []"

text \<open>
  \<^verbatim>\<open>df.loc[msk, col] = values\<close>: the rows the mask selects receive the values one after
  the other, in row order; the other rows keep what they had. (pandas raises when the
  number of values differs from the number of selected rows; every call below passes a
  rolling result over exactly the selected rows, see \<open>length_rolling_mean\<close>. Where
  the value is a Series, its index is the index of the selected rows, so that alignment
  is positional as well.)
\<close>

fun loc_set :: "bool list \<Rightarrow> 'a list \<Rightarrow> 'a list \<Rightarrow> 'a list" where
  "loc_set (b # bs) vs (c # cs) =
     (if b then (case vs of [] \<Rightarrow> c # loc_set bs [] cs | v # vs' \<Rightarrow> v # loc_set bs vs' cs)
      else c # loc_set bs vs cs)"
| "loc_set _ _ cs = cs"

text \<open>
  A column that \<^verbatim>\<open>df.loc[msk, col] = ...\<close> assigns to and that does not exist yet is
  created first, with \<open>NaN\<close> in every row.
\<close>

definition col_or_nan :: "nat \<Rightarrow> fl list option \<Rightarrow> fl list" where
  "col_or_nan n c = (case c of None \<Rightarrow> replicate n NaN | Some xs \<Rightarrow> xs)"

text \<open>
  \<^verbatim>\<open>Series.mean()\<close> and \<^verbatim>\<open>Series.std()\<close> (sample standard deviation, \<open>ddof = 1\<close>): missing
  values are skipped; the mean of no observation is \<open>NaN\<close>, the standard deviation of
  fewer than two observations is \<open>NaN\<close>.
\<close>

definition avg :: "real list \<Rightarrow> real" where
  "avg xs = sum_list xs / real (length xs)"

definition sample_var :: "real list \<Rightarrow> real" where
  "sample_var xs = (\<Sum>x\<leftarrow>xs. (x - avg xs)\<^sup>2) / (real (length xs) - 1)"

definition series_mean :: "fl list \<Rightarrow> fl" where
  "series_mean col =
     (let obs = observations col in if obs = [] then NaN else Fin (avg obs))"

definition series_std :: "fl list \<Rightarrow> fl" where
  "series_std col =
     (let obs = observations col
      in if length obs \<le> 1 then NaN else Fin (sqrt (sample_var obs)))"

text \<open>
  \<^verbatim>\<open>Series.rolling(window=W, center=True)\<close> with the default \<open>min_periods = W\<close>. For row
  \<open>i\<close> of a series of \<open>n\<close> rows pandas takes the rows \<open>start \<le> j < end\<close> with
  \<open>offset = (W - 1) // 2\<close>, \<open>end = i + 1 + offset\<close>, \<open>start = end - W\<close>, both clipped to
  \<open>[0, n]\<close>. The result at \<open>i\<close> is \<open>NaN\<close> unless the window holds at least \<open>min_periods\<close>
  observations; \<open>mean\<close> needs at least one observation and \<open>std\<close> (\<open>ddof = 1\<close>) at least
  two.
\<close>

definition window_start :: "nat \<Rightarrow> nat \<Rightarrow> nat \<Rightarrow> nat" where
  "window_start W n i = min n (i + 1 + (W - 1) div 2 - W)"

definition window_end :: "nat \<Rightarrow> nat \<Rightarrow> nat \<Rightarrow> nat" where
  "window_end W n i = min n (i + 1 + (W - 1) div 2)"

definition window_of :: "nat \<Rightarrow> 'a list \<Rightarrow> nat \<Rightarrow> 'a list" where
  "window_of W xs i =
     (let n = length xs; s = window_start W n i; e = window_end W n i
      in take (e - s) (drop s xs))"

definition rolling_mean_at :: "nat \<Rightarrow> fl list \<Rightarrow> nat \<Rightarrow> fl" where
  "rolling_mean_at W xs i =
     (let obs = observations (window_of W xs i)
      in if W \<le> length obs \<and> 0 < length obs then Fin (avg obs) else NaN)"

definition rolling_std_at :: "nat \<Rightarrow> fl list \<Rightarrow> nat \<Rightarrow> fl" where
  "rolling_std_at W xs i =
     (let obs = observations (window_of W xs i)
      in if W \<le> length obs \<and> 1 < length obs then Fin (sqrt (sample_var obs)) else NaN)"

definition rolling_mean :: "nat \<Rightarrow> fl list \<Rightarrow> fl list" where
  "rolling_mean W xs = map (rolling_mean_at W xs) [0..<length xs]"

definition rolling_std :: "nat \<Rightarrow> fl list \<Rightarrow> fl list" where
  "rolling_std W xs = map (rolling_std_at W xs) [0..<length xs]"

subsection \<open>The DataFrame of readings\<close>

text \<open>
  The frame is kept by columns, as pandas keeps it. The four columns of a Reading are
  always there; the derived columns exist once a function has assigned to them.
  Timestamps are counted in seconds.
\<close>

record frame =
  timestamp :: "int list"
  city :: "string list"
  temperature :: "fl list"
  season :: "string list"
  moving_mean :: "fl list option"
  moving_std :: "fl list option"
  lower_bound :: "fl list option"
  upper_bound :: "fl list option"
  is_anomaly :: "bool list option"
  trend :: "fl list option"

definition nrows :: "frame \<Rightarrow> nat" where
  "nrows df = length (city df)"

text \<open>Every column of a DataFrame has one entry per row.\<close>

definition option_all :: "('a \<Rightarrow> bool) \<Rightarrow> 'a option \<Rightarrow> bool" where
  "option_all P x = (case x of None \<Rightarrow> True | Some y \<Rightarrow> P y)"

definition wf_frame :: "frame \<Rightarrow> bool" where
  "wf_frame df \<longleftrightarrow>
     length (timestamp df) = nrows df \<and>
     length (temperature df) = nrows df \<and>
     length (season df) = nrows df \<and>
     option_all (\<lambda>c. length c = nrows df) (moving_mean df) \<and>
     option_all (\<lambda>c. length c = nrows df) (moving_std df) \<and>
     option_all (\<lambda>c. length c = nrows df) (lower_bound df) \<and>
     option_all (\<lambda>c. length c = nrows df) (upper_bound df) \<and>
     option_all (\<lambda>c. length c = nrows df) (is_anomaly df) \<and>
     option_all (\<lambda>c. length c = nrows df) (trend df)"

text \<open>\<^verbatim>\<open>df[msk]\<close>: the sub-frame of the selected rows.\<close>

definition filter_rows :: "bool list \<Rightarrow> frame \<Rightarrow> frame" where
  "filter_rows msk df =
     \<lparr> timestamp = select msk (timestamp df),
       city = select msk (city df),
       temperature = select msk (temperature df),
       season = select msk (season df),
       moving_mean = map_option (select msk) (moving_mean df),
       moving_std = map_option (select msk) (moving_std df),
       lower_bound = map_option (select msk) (lower_bound df),
       upper_bound = map_option (select msk) (upper_bound df),
       is_anomaly = map_option (select msk) (is_anomaly df),
       trend = map_option (select msk) (trend df) \<rparr>"

subsection \<open>analysis.py: rolling statistics\<close>

definition WINDOW_SIZE :: nat where
  "WINDOW_SIZE = 30"

text \<open>
  One round of the sequential loop of \<^verbatim>\<open>calc_moving_avg\<close>: the mask of the city, then
  the two assignments, each reading the temperature column of the frame as it is at
  that moment.
\<close>

definition seq_city :: "string \<Rightarrow> frame \<Rightarrow> frame" where
  "seq_city c df =
     (let msk = eq_mask (city df) c;
          df1 = df\<lparr>moving_mean := Some (loc_set msk
                  (rolling_mean WINDOW_SIZE (select msk (temperature df)))
                  (col_or_nan (nrows df) (moving_mean df)))\<rparr>;
          df2 = df1\<lparr>moving_std := Some (loc_set msk
                  (rolling_std WINDOW_SIZE (select msk (temperature df1)))
                  (col_or_nan (nrows df1) (moving_std df1)))\<rparr>
      in df2)"

text \<open>\<^verbatim>\<open>calc_city_moving\<close>: the worker of the parallel strategy.\<close>

definition calc_city_moving :: "frame \<times> string \<Rightarrow> string \<times> fl list \<times> fl list" where
  "calc_city_moving args =
     (case args of (city_df, c) \<Rightarrow>
        (c, rolling_mean WINDOW_SIZE (temperature city_df),
            rolling_std WINDOW_SIZE (temperature city_df)))"

text \<open>One round of the merge loop of the parallel strategy.\<close>

definition par_merge :: "string \<times> fl list \<times> fl list \<Rightarrow> frame \<Rightarrow> frame" where
  "par_merge res df =
     (case res of (c, mean_vals, std_vals) \<Rightarrow>
        (let msk = eq_mask (city df) c;
             df1 = df\<lparr>moving_mean := Some (loc_set msk mean_vals
                     (col_or_nan (nrows df) (moving_mean df)))\<rparr>;
             df2 = df1\<lparr>moving_std := Some (loc_set msk std_vals
                     (col_or_nan (nrows df1) (moving_std df1)))\<rparr>
         in df2))"

text \<open>
  \<^verbatim>\<open>calc_moving_avg\<close>. \<^verbatim>\<open>Pool.map\<close> returns the workers' results in the order of its
  argument list, each computed from the sub-frame it was sent; which process computes
  a result, and when, is not visible in the value.
\<close>

definition calc_moving_avg :: "frame \<Rightarrow> bool \<Rightarrow> frame" where
  "calc_moving_avg df parallel =
     (if \<not> parallel then fold seq_city (unique (city df)) df
      else
        (let cities = unique (city df);
             results = map calc_city_moving
                         (map (\<lambda>c. (filter_rows (eq_mask (city df) c) df, c)) cities)
         in fold par_merge results df))"

subsection \<open>analysis.py: anomaly bands\<close>

datatype error = KeyError string | ValueError string

text \<open>Elementwise operations on columns.\<close>

definition col_sub :: "fl list \<Rightarrow> fl list \<Rightarrow> fl list" where
  "col_sub xs ys = map (\<lambda>(x, y). fl_sub x y) (zip xs ys)"

definition col_add :: "fl list \<Rightarrow> fl list \<Rightarrow> fl list" where
  "col_add xs ys = map (\<lambda>(x, y). fl_add x y) (zip xs ys)"

definition col_scale :: "real \<Rightarrow> fl list \<Rightarrow> fl list" where
  "col_scale k xs = map (fl_mul (Fin k)) xs"

definition col_lt :: "fl list \<Rightarrow> fl list \<Rightarrow> bool list" where
  "col_lt xs ys = map (\<lambda>(x, y). fl_lt x y) (zip xs ys)"

definition col_gt :: "fl list \<Rightarrow> fl list \<Rightarrow> bool list" where
  "col_gt xs ys = map (\<lambda>(x, y). fl_gt x y) (zip xs ys)"

definition or_mask :: "bool list \<Rightarrow> bool list \<Rightarrow> bool list" where
  "or_mask m1 m2 = map (\<lambda>(a, b). a \<or> b) (zip m1 m2)"

text \<open>
  \<^verbatim>\<open>calc_anomalies\<close>. Reading a column that does not exist raises \<^verbatim>\<open>KeyError\<close>;
  \<^verbatim>\<open>moving_mean\<close> is read first. The three assignments replace whole columns.
\<close>

definition calc_anomalies :: "frame \<Rightarrow> error + frame" where
  "calc_anomalies df =
     (case moving_mean df of
        None \<Rightarrow> Inl (KeyError ''moving_mean'')
      | Some mm \<Rightarrow>
         (case moving_std df of
            None \<Rightarrow> Inl (KeyError ''moving_std'')
          | Some ms \<Rightarrow>
             (let lower_col = col_sub mm (col_scale 2 ms);
                  df1 = df\<lparr>lower_bound := Some lower_col\<rparr>;
                  upper_col = col_add mm (col_scale 2 ms);
                  df2 = df1\<lparr>upper_bound := Some upper_col\<rparr>;
                  df3 = df2\<lparr>is_anomaly := Some (or_mask
                          (col_lt (temperature df2) lower_col)
                          (col_gt (temperature df2) upper_col))\<rparr>
              in Inr df3)))"

subsection \<open>Library operation: scipy.stats.linregress\<close>

text \<open>
  \<^verbatim>\<open>linregress(x, y)\<close> returns slope, intercept, r-value and p-value (and a standard
  error that \<^verbatim>\<open>calc_trend\<close> drops). It raises \<^verbatim>\<open>ValueError\<close> on empty input, and on
  two or more points whose \<open>x\<close> values are all the same. Otherwise, with the biased
  covariances \<open>ssxm\<close>, \<open>ssxym\<close>, \<open>ssym\<close>: \<open>r\<close> is \<open>0\<close> when \<open>ssxm\<close> or \<open>ssym\<close> is zero
  and the clamped correlation otherwise, \<open>slope = ssxym / ssxm\<close> (which is \<open>0 / 0\<close>, a
  \<open>NaN\<close>, for a single point), \<open>intercept = ymean - slope * xmean\<close>. The p-value comes
  from Student's t distribution, whose survival function is the parameter \<open>tsf\<close>. A
  missing \<open>y\<close> makes every covariance with \<open>y\<close> a \<open>NaN\<close>.
\<close>

definition TINY :: real where
  "TINY = 1 / 10 ^ 20"

definition clamp_r :: "real \<Rightarrow> real" where
  "clamp_r r = (if r > 1 then 1 else if r < - 1 then - 1 else r)"

definition fl_eq :: "fl \<Rightarrow> fl \<Rightarrow> bool" where
  "fl_eq a b = (case (a, b) of (Fin x, Fin y) \<Rightarrow> x = y | _ \<Rightarrow> False)"

definition linregress ::
  "(real \<Rightarrow> int \<Rightarrow> real) \<Rightarrow> real list \<Rightarrow> fl list \<Rightarrow> error + (fl \<times> fl \<times> fl \<times> fl)" where
  "linregress tsf x y =
     (if x = [] \<or> y = [] then Inl (ValueError ''Inputs must not be empty.'')
      else if Max (set x) = Min (set x) \<and> length x > 1
        then Inl (ValueError
          ''Cannot calculate a linear regression if all x values are identical'')
      else
        (let n = length x;
             prob2 = (if fl_eq (y ! 0) (y ! 1) then Fin 1 else Fin 0)
         in if length (observations y) < length y
            then Inr (NaN, NaN, NaN, if n = 2 then prob2 else NaN)
            else
              (let ys = observations y;
                   xmean = avg x; ymean = avg ys;
                   ssxm = avg (map (\<lambda>a. (a - xmean)\<^sup>2) x);
                   ssxym = avg (map (\<lambda>(a, b). (a - xmean) * (b - ymean)) (zip x ys));
                   ssym = avg (map (\<lambda>b. (b - ymean)\<^sup>2) ys);
                   r = (if ssxm = 0 \<or> ssym = 0 then 0
                        else clamp_r (ssxym / sqrt (ssxm * ssym)));
                   slope = (if ssxm = 0 then NaN else Fin (ssxym / ssxm));
                   intercept = fl_sub (Fin ymean) (fl_mul slope (Fin xmean));
                   df = int n - 2;
                   prob = (if n = 2 then prob2
                           else if df < 0 then NaN
                           else Fin (2 * tsf
                             \<bar>r * sqrt (real_of_int df / ((1 - r + TINY) * (1 + r + TINY)))\<bar> df))
               in Inr (slope, intercept, Fin r, prob))))"

subsection \<open>analysis.py: trend\<close>

text \<open>
  The days of a city's rows since the city's earliest timestamp, \<^verbatim>\<open>.dt.days\<close> being
  the whole days of the difference. The city has at least one row when this is called.
\<close>

definition day_offsets :: "int list \<Rightarrow> int list" where
  "day_offsets ts = map (\<lambda>t. (t - Min (set ts)) div 86400) ts"

text \<open>
  One round of the loop of \<^verbatim>\<open>calc_trend\<close>. There is no handler around
  \<^verbatim>\<open>linregress\<close>: what it raises leaves \<^verbatim>\<open>calc_trend\<close>.
\<close>

definition trend_city ::
  "(real \<Rightarrow> int \<Rightarrow> real) \<Rightarrow> string \<Rightarrow> (string \<rightharpoonup> fl \<times> fl \<times> fl) \<times> frame
     \<Rightarrow> error + ((string \<rightharpoonup> fl \<times> fl \<times> fl) \<times> frame)" where
  "trend_city tsf c st =
     (case st of (trends, df) \<Rightarrow>
        (let city_df = filter_rows (eq_mask (city df) c) df;
             days = day_offsets (timestamp city_df)
         in case linregress tsf (map real_of_int days) (temperature city_df) of
              Inl e \<Rightarrow> Inl e
            | Inr (slope, intercept, r_value, p_value) \<Rightarrow>
                Inr (trends(c \<mapsto> (slope, r_value, p_value)),
                     df\<lparr>trend := Some (loc_set (eq_mask (city df) c)
                        (map (\<lambda>d. fl_add (fl_mul slope (Fin (real_of_int d))) intercept) days)
                        (col_or_nan (nrows df) (trend df)))\<rparr>)))"

fun trend_loop ::
  "(real \<Rightarrow> int \<Rightarrow> real) \<Rightarrow> string list \<Rightarrow> (string \<rightharpoonup> fl \<times> fl \<times> fl) \<times> frame
     \<Rightarrow> error + ((string \<rightharpoonup> fl \<times> fl \<times> fl) \<times> frame)" where
  "trend_loop tsf [] st = Inr st"
| "trend_loop tsf (c # cs) st =
     (case trend_city tsf c st of Inl e \<Rightarrow> Inl e | Inr st' \<Rightarrow> trend_loop tsf cs st')"

text \<open>
  \<^verbatim>\<open>calc_trend\<close> returns the dictionary of trends; the frame it has updated in place
  is returned beside it.
\<close>

definition calc_trend ::
  "(real \<Rightarrow> int \<Rightarrow> real) \<Rightarrow> frame \<Rightarrow> error + ((string \<rightharpoonup> fl \<times> fl \<times> fl) \<times> frame)" where
  "calc_trend tsf df = trend_loop tsf (unique (city df)) (Map.empty, df)"

subsection \<open>weather_monitor.py: seasonal baseline and live check\<close>

record stats =
  mean :: fl
  std :: fl
  lower :: fl
  upper :: fl

definition get_season_stats :: "frame \<Rightarrow> string \<Rightarrow> string \<Rightarrow> stats" where
  "get_season_stats df c s =
     (let city_season = filter_rows (and_mask (eq_mask (city df) c) (eq_mask (season df) s)) df;
          mean_temp = series_mean (temperature city_season);
          std_temp = series_std (temperature city_season)
      in \<lparr> mean = mean_temp,
           std = std_temp,
           lower = fl_sub mean_temp (fl_mul (Fin 2) std_temp),
           upper = fl_add mean_temp (fl_mul (Fin 2) std_temp) \<rparr>)"

record verdict =
  verdict_is_anomaly :: bool
  status :: string
  deviation :: fl

definition check_anomaly :: "fl \<Rightarrow> stats \<Rightarrow> verdict" where
  "check_anomaly current_temp st =
     (let anomalous = (fl_lt current_temp (lower st) \<or> fl_gt current_temp (upper st));
          status_text =
            (if fl_lt current_temp (lower st) then ''colder than normal''
             else if fl_gt current_temp (upper st) then ''warmer than normal''
             else ''within normal range'')
      in \<lparr> verdict_is_anomaly = anomalous,
           status = status_text,
           deviation = fl_abs (fl_sub current_temp (mean st)) \<rparr>)"

subsection \<open>weather_monitor.py: fetching live readings\<close>

text \<open>
  A decoded JSON document, and what one HTTP request can come to: the request itself
  raises (no connection, timeout), or a response arrives with a status code and a body
  that decodes as JSON or does not.
\<close>

datatype json =
    JNull
  | JBool bool
  | JNum real
  | JStr string
  | JArr "json list"
  | JObj "(string \<times> json) list"

datatype http_result = RequestRaised | Response nat "json option"

text \<open>
  \<^verbatim>\<open>data[key]\<close> with a string key and \<^verbatim>\<open>data[0]\<close>; \<open>None\<close> stands for the
  \<^verbatim>\<open>KeyError\<close>, \<^verbatim>\<open>IndexError\<close> or \<^verbatim>\<open>TypeError\<close> that Python raises.
\<close>

fun subscript_key :: "json \<Rightarrow> string \<Rightarrow> json option" where
  "subscript_key (JObj kvs) k = map_of kvs k"
| "subscript_key _ k = None"

fun subscript_0 :: "json \<Rightarrow> json option" where
  "subscript_0 (JArr (x # xs)) = Some x"
| "subscript_0 (JStr (ch # cs)) = Some (JStr [ch])"
| "subscript_0 _ = None"

record reading =
  reading_city :: string
  reading_temperature :: json
  feels_like :: json
  description :: json

text \<open>
  \<^verbatim>\<open>get_current_temp\<close> issues one request; \<open>res\<close> is what that request comes to.
  \<^verbatim>\<open>raise_for_status\<close> raises for a status from 400 to 599. Whatever is raised inside
  the \<^verbatim>\<open>try\<close> is an \<^verbatim>\<open>Exception\<close> and the handler returns \<^verbatim>\<open>None\<close>.
\<close>

definition get_current_temp :: "http_result \<Rightarrow> string \<Rightarrow> string \<Rightarrow> reading option" where
  "get_current_temp res c api_key =
     (case res of
        RequestRaised \<Rightarrow> None
      | Response code body \<Rightarrow>
          if 400 \<le> code \<and> code < 600 then None
          else
            (case body of
               None \<Rightarrow> None
             | Some data \<Rightarrow>
                 Option.bind (Option.bind (subscript_key data ''main'')
                                (\<lambda>m. subscript_key m ''temp'')) (\<lambda>temp.
                 Option.bind (Option.bind (subscript_key data ''main'')
                                (\<lambda>m. subscript_key m ''feels_like'')) (\<lambda>feels.
                 Option.bind (Option.bind (Option.bind (subscript_key data ''weather'')
                                subscript_0) (\<lambda>w. subscript_key w ''description'')) (\<lambda>descr.
                 Some \<lparr> reading_city = c, reading_temperature = temp,
                        feels_like = feels, description = descr \<rparr>)))))"

text \<open>\<^verbatim>\<open>get_current_temp_async\<close>: the same steps on an aiohttp session.\<close>

definition get_current_temp_async :: "http_result \<Rightarrow> string \<Rightarrow> string \<Rightarrow> reading option" where
  "get_current_temp_async res c api_key =
     (case res of
        RequestRaised \<Rightarrow> None
      | Response code body \<Rightarrow>
          if 400 \<le> code \<and> code < 600 then None
          else
            (case body of
               None \<Rightarrow> None
             | Some data \<Rightarrow>
                 Option.bind (Option.bind (subscript_key data ''main'')
                                (\<lambda>m. subscript_key m ''temp'')) (\<lambda>temp.
                 Option.bind (Option.bind (subscript_key data ''main'')
                                (\<lambda>m. subscript_key m ''feels_like'')) (\<lambda>feels.
                 Option.bind (Option.bind (Option.bind (subscript_key data ''weather'')
                                subscript_0) (\<lambda>w. subscript_key w ''description'')) (\<lambda>descr.
                 Some \<lparr> reading_city = c, reading_temperature = temp,
                        feels_like = feels, description = descr \<rparr>)))))"

text \<open>
  The two acquisition strategies. \<open>results\<close> lists what the request of each city comes
  to, in the order of \<open>cities\<close>. \<^verbatim>\<open>asyncio.gather\<close> returns the tasks' results in the
  order of the tasks, whatever the order in which the responses arrive.
\<close>

definition fetch_all_temps_sync ::
  "http_result list \<Rightarrow> string list \<Rightarrow> string \<Rightarrow> reading option list" where
  "fetch_all_temps_sync results cities api_key =
     map (\<lambda>(res, c). get_current_temp res c api_key) (zip results cities)"

definition fetch_all_temps_async ::
  "http_result list \<Rightarrow> string list \<Rightarrow> string \<Rightarrow> reading option list" where
  "fetch_all_temps_async results cities api_key =
     map (\<lambda>(res, c). get_current_temp_async res c api_key) (zip results cities)"

section \<open>Properties\<close>

subsection \<open>What a round of either loop leaves alone\<close>

lemma seq_city_frame [simp]:
  "timestamp (seq_city c df) = timestamp df"
  "city (seq_city c df) = city df"
  "temperature (seq_city c df) = temperature df"
  "season (seq_city c df) = season df"
  "lower_bound (seq_city c df) = lower_bound df"
  "upper_bound (seq_city c df) = upper_bound df"
  "is_anomaly (seq_city c df) = is_anomaly df"
  "trend (seq_city c df) = trend df"
  by (simp_all add: seq_city_def Let_def)

lemma fold_seq_city_frame [simp]:
  "timestamp (fold seq_city cs df) = timestamp df"
  "city (fold seq_city cs df) = city df"
  "temperature (fold seq_city cs df) = temperature df"
  "season (fold seq_city cs df) = season df"
  "lower_bound (fold seq_city cs df) = lower_bound df"
  "upper_bound (fold seq_city cs df) = upper_bound df"
  "is_anomaly (fold seq_city cs df) = is_anomaly df"
  "trend (fold seq_city cs df) = trend df"
  by (induction cs arbitrary: df; simp)+

subsection \<open>The parallel strategy computes what the sequential one computes\<close>

text \<open>
  A round of the sequential loop reads the temperatures of the frame it is updating, a
  worker reads those of the sub-frame cut from the frame as it was before the merge
  loop. The two agree as long as the city and temperature columns are those of the
  original frame, which every round preserves.
\<close>

lemma seq_city_eq_par_merge:
  assumes "city df' = city df" "temperature df' = temperature df"
  shows "seq_city c df' =
         par_merge (calc_city_moving (filter_rows (eq_mask (city df) c) df, c)) df'"
  using assms
  by (simp add: seq_city_def par_merge_def calc_city_moving_def filter_rows_def
      Let_def nrows_def)

lemma fold_seq_eq_fold_par:
  assumes "city df' = city df" "temperature df' = temperature df"
  shows "fold seq_city cs df' =
         fold par_merge
           (map calc_city_moving
              (map (\<lambda>c. (filter_rows (eq_mask (city df) c) df, c)) cs)) df'"
  using assms
proof (induction cs arbitrary: df')
  case Nil
  then show ?case by simp
next
  case (Cons c cs)
  have step: "seq_city c df' =
      par_merge (calc_city_moving (filter_rows (eq_mask (city df) c) df, c)) df'"
    using Cons.prems by (rule seq_city_eq_par_merge)
  have "fold seq_city cs (seq_city c df') =
        fold par_merge
           (map calc_city_moving
              (map (\<lambda>c. (filter_rows (eq_mask (city df) c) df, c)) cs))
           (seq_city c df')"
    by (rule Cons.IH) (simp_all add: Cons.prems)
  then show ?case by (simp add: step)
qed

lemma par_as_seq: "calc_moving_avg df True = fold seq_city (unique (city df)) df"
  by (simp add: calc_moving_avg_def Let_def fold_seq_eq_fold_par [of df df])

lemma calc_moving_avg_as_fold:
  "calc_moving_avg df parallel = fold seq_city (unique (city df)) df"
  by (cases parallel) (simp_all add: par_as_seq, simp add: calc_moving_avg_def)

text \<open>
  C1. For every frame, the parallel strategy (workers fed with each city's sub-frame,
  results merged back by city) returns the frame the sequential strategy returns; in
  particular the two have the same \<open>moving_mean\<close> and \<open>moving_std\<close> columns, for every
  city and at every row.
\<close>

theorem parallel_equals_sequential:
  "calc_moving_avg df True = calc_moving_avg df False
   \<and> moving_mean (calc_moving_avg df True) = moving_mean (calc_moving_avg df False)
   \<and> moving_std (calc_moving_avg df True) = moving_std (calc_moving_avg df False)"
  by (simp add: calc_moving_avg_as_fold)

text \<open>
  C8. In both modes \<open>calc_moving_avg\<close> leaves every column other than \<open>moving_mean\<close>
  and \<open>moving_std\<close> as it was: the timestamp, city, temperature and season columns of
  the result are those of the input, entry by entry and in the same row order, and the
  number of rows is unchanged.
\<close>

theorem calc_moving_avg_keeps_readings:
  "timestamp (calc_moving_avg df parallel) = timestamp df
   \<and> city (calc_moving_avg df parallel) = city df
   \<and> temperature (calc_moving_avg df parallel) = temperature df
   \<and> season (calc_moving_avg df parallel) = season df
   \<and> lower_bound (calc_moving_avg df parallel) = lower_bound df
   \<and> upper_bound (calc_moving_avg df parallel) = upper_bound df
   \<and> is_anomaly (calc_moving_avg df parallel) = is_anomaly df
   \<and> trend (calc_moving_avg df parallel) = trend df
   \<and> nrows (calc_moving_avg df parallel) = nrows df"
  by (simp add: calc_moving_avg_as_fold nrows_def)

end
